theory Spec2Isabelle
  imports Main "HOL-Library.Sublist"
begin

section \<open>Python string operations\<close>

text \<open>
  Text is a \<open>string\<close> of ASCII characters. The \<open>str\<close> methods and the regular expression
  classes used by the pipeline are given their behaviour on ASCII; a character above 127
  is passed through unchanged and belongs to no class.
\<close>

definition ascii_uppercase :: string where
  "ascii_uppercase = ''ABCDEFGHIJKLMNOPQRSTUVWXYZ''"

definition ascii_lowercase :: string where
  "ascii_lowercase = ''abcdefghijklmnopqrstuvwxyz''"

definition digits :: string where
  "digits = ''0123456789''"

text \<open>\<open>str.isspace\<close> and the class \<open>\s\<close>: tab, line feed, vertical tab, form feed, carriage
  return, the four separators \<open>0x1C\<close> to \<open>0x1F\<close> and the space.\<close>

definition isspace :: "char \<Rightarrow> bool" where
  "isspace c = (c \<in> set [CHR 0x09, CHR 0x0A, CHR 0x0B, CHR 0x0C, CHR 0x0D,
                          CHR 0x1C, CHR 0x1D, CHR 0x1E, CHR 0x1F, CHR 0x20])"

definition isdigit :: "char \<Rightarrow> bool" where
  "isdigit c = (c \<in> set digits)"

definition isalpha :: "char \<Rightarrow> bool" where
  "isalpha c = (c \<in> set (ascii_uppercase @ ascii_lowercase))"

definition lower_char :: "char \<Rightarrow> char" where
  "lower_char c = (case map_of (zip ascii_uppercase ascii_lowercase) c of
                     Some l \<Rightarrow> l | None \<Rightarrow> c)"

definition upper_char :: "char \<Rightarrow> char" where
  "upper_char c = (case map_of (zip ascii_lowercase ascii_uppercase) c of
                     Some u \<Rightarrow> u | None \<Rightarrow> c)"

definition str_lower :: "string \<Rightarrow> string" where
  "str_lower s = map lower_char s"

definition str_upper :: "string \<Rightarrow> string" where
  "str_upper s = map upper_char s"

text \<open>\<open>s.strip()\<close> drops the whitespace at both ends.\<close>

definition str_strip :: "string \<Rightarrow> string" where
  "str_strip s = rev (dropWhile isspace (rev (dropWhile isspace s)))"

text \<open>\<open>x in s\<close> on strings: \<open>x\<close> occurs in \<open>s\<close> as a contiguous run.\<close>

fun str_contains :: "string \<Rightarrow> string \<Rightarrow> bool" where
  "str_contains x [] = (x = [])"
| "str_contains x (c # cs) = (prefix x (c # cs) \<or> str_contains x cs)"

text \<open>\<open>s.replace(old, new)\<close>: the occurrences of \<open>old\<close> are replaced from left to right,
  without overlap.\<close>

fun str_replace :: "string \<Rightarrow> string \<Rightarrow> string \<Rightarrow> string" where
  "str_replace old new [] = (if old = [] then new else [])"
| "str_replace old new (c # cs) =
     (if old = [] then new @ c # str_replace old new cs
      else if prefix old (c # cs)
           then new @ str_replace old new (drop (length old - 1) cs)
      else c # str_replace old new cs)"

text \<open>\<open>s.title()\<close>: a letter that follows a letter is lower-cased, any other letter is
  upper-cased, every other character is kept.\<close>

fun title_from :: "bool \<Rightarrow> string \<Rightarrow> string" where
  "title_from previous_is_cased [] = []"
| "title_from previous_is_cased (c # cs) =
     (if isalpha c
      then (if previous_is_cased then lower_char c else upper_char c) # title_from True cs
      else c # title_from False cs)"

definition str_title :: "string \<Rightarrow> string" where
  "str_title s = title_from False s"

text \<open>\<open>os.path.join(a, b)\<close> on a POSIX system.\<close>

definition path_join :: "string \<Rightarrow> string \<Rightarrow> string" where
  "path_join a b =
     (if prefix ''/'' b then b
      else if a = [] \<or> suffix ''/'' a then a @ b
      else a @ ''/'' @ b)"


section \<open>District canonicalizer (database.py)\<close>

definition ranga_reddy_aliases :: "string list" where
  "ranga_reddy_aliases =
     [''ranga'', ''r.r'', ''rr'', ''r r'', ''r. r'', ''cyberabad'', ''raidurgam'',
      ''maheshwar'', ''l.b'', ''rajendranagar'', ''ibrahimpatnam'', ''alkapoor'',
      ''serilingampally'']"

definition placeholder_names :: "string list" where
  "placeholder_names =
     [''not mentioned'', ''not specified'', ''unknown'', ''[]'', ''[district]'',
      ''not provided'', ''not specified in the provided text'']"

text \<open>
  \<open>normalize_district\<close> returns a name, or Python's \<open>None\<close> for a record to be left out
  (the exclusion signal); its argument may itself be \<open>None\<close>, which \<open>not district_name\<close>
  treats like the empty string.
\<close>

definition normalize_district :: "string option \<Rightarrow> string option" where
  "normalize_district district_name =
     (case district_name of
        None \<Rightarrow> Some ''Unknown''
      | Some name \<Rightarrow>
          if name = [] then Some ''Unknown''
          else
            let d = str_lower (str_strip name) in
            if list_ex (\<lambda>x. str_contains x d) ranga_reddy_aliases then Some ''Ranga Reddy''
            else if str_contains ''lucknow'' d then None
            else if str_contains ''nalgonda'' d \<or> str_contains ''miryalaguda'' d
                    \<or> str_contains ''yadadri'' d \<or> str_contains ''bhongir'' d
                 then Some ''Nalgonda''
            else if str_contains ''mahabubnagar'' d \<or> str_contains ''nagarkurnool'' d
                    \<or> str_contains ''wanaparthy'' d \<or> str_contains ''jogulamba'' d
                    \<or> str_contains ''gadwal'' d
                 then Some ''Mahabubnagar''
            else if str_contains ''nizamabad'' d \<or> str_contains ''pali'' d
                    \<or> str_contains ''ramareddy'' d \<or> str_contains ''dichpally'' d
                    \<or> str_contains ''kamareddy'' d \<or> str_contains ''yellareddy'' d
                 then Some ''Nizamabad''
            else if str_contains ''adilabad'' d then Some ''Adilabad''
            else if str_contains ''karimnagar'' d then Some ''Karimnagar''
            else if str_contains ''khammam'' d \<or> str_contains ''bhadradri'' d
                 then Some ''Khammam''
            else if str_contains ''warangal'' d \<or> str_contains ''hanamkonda'' d
                 then Some ''Warangal''
            else if str_contains ''sangareddy'' d then Some ''Sangareddy''
            else if str_contains ''siddipet'' d then Some ''Siddipet''
            else if str_contains ''medak'' d then Some ''Medak''
            else if str_contains ''hyderabad'' d \<or> str_contains ''secunderabad'' d
                 then Some ''Hyderabad''
            else if str_contains ''medchal'' d \<or> str_contains ''malkajgiri'' d
                    \<or> str_contains ''kukatpally'' d
                 then Some ''Medchal-Malkajgiri''
            else if str_contains ''vikarabad'' d then Some ''Vikarabad''
            else
              let clean = str_strip (str_replace ''.'' '''' (str_replace ''dist'' ''''
                            (str_replace ''district'' '''' d))) in
              if clean = ''r r'' then Some ''Ranga Reddy''
              else if clean = [] \<or> clean \<in> set placeholder_names then Some ''Unknown''
              else Some (str_title clean))"

text \<open>The canonical results that \<open>normalize_district\<close> maps to themselves.\<close>

definition stable_districts :: "string list" where
  "stable_districts =
     [''Ranga Reddy'', ''Nalgonda'', ''Mahabubnagar'', ''Nizamabad'', ''Adilabad'',
      ''Karimnagar'', ''Khammam'', ''Sangareddy'', ''Siddipet'', ''Medak'', ''Hyderabad'',
      ''Medchal-Malkajgiri'', ''Vikarabad'', ''Unknown'']"


section \<open>Outcome classifier (main.py)\<close>

definition conviction_keywords :: "string list" where
  "conviction_keywords =
     [''found guilty'', ''convicted'', ''guilty of all charges'', ''conviction'']"

definition acquittal_keywords :: "string list" where
  "acquittal_keywords = [''acquitted'', ''acquittal'', ''not guilty'']"

definition extract_outcome_from_filename :: "string \<Rightarrow> string \<Rightarrow> string" where
  "extract_outcome_from_filename filename legal_summary =
     (let upper = str_upper filename in
      if prefix ''ACQUITTED'' upper then ''Acquitted''
      else if prefix ''CONVICTED'' upper \<or> prefix ''CONVICTION'' upper then ''Convicted''
      else if legal_summary \<noteq> [] then
        (let lower = str_lower legal_summary in
         if list_ex (\<lambda>kw. str_contains kw lower) conviction_keywords then ''Convicted''
         else if list_ex (\<lambda>kw. str_contains kw lower) acquittal_keywords then ''Acquitted''
         else ''Unknown'')
      else ''Unknown'')"


section \<open>Detail lookup by slug (main.py)\<close>

text \<open>
  \<open>BASE_DIR\<close> is the directory of the running module, a parameter here, and the file system
  is seen through \<open>os.path.exists\<close>. The model of \<open>load_analysis_detail\<close> returns the
  file that the function goes on to read and the parser it is handed to, or \<open>None\<close> when
  the function returns \<open>None\<close> because that file does not exist; what is read from the
  file is outside this part of the model.
\<close>

definition ANALYSIS_DIR :: "string \<Rightarrow> string" where
  "ANALYSIS_DIR base_dir = path_join base_dir ''analysis_documents''"

definition NPA_ANALYSIS_DIR :: "string \<Rightarrow> string" where
  "NPA_ANALYSIS_DIR base_dir = path_join base_dir ''npa_analysis_documents''"

datatype detail_source =
    JsonDetail string string
  | MarkdownDetail string

definition load_json_analysis_detail ::
  "(string \<Rightarrow> bool) \<Rightarrow> string \<Rightarrow> string \<Rightarrow> detail_source option" where
  "load_json_analysis_detail path_exists fpath slug =
     (if \<not> path_exists fpath then None else Some (JsonDetail fpath slug))"

definition load_analysis_detail ::
  "string \<Rightarrow> (string \<Rightarrow> bool) \<Rightarrow> string \<Rightarrow> detail_source option" where
  "load_analysis_detail base_dir path_exists slug =
     (if prefix ''npa_'' slug then
        (let stem = drop 4 slug;
             fpath = path_join (NPA_ANALYSIS_DIR base_dir) (stem @ ''.json'')
         in load_json_analysis_detail path_exists fpath slug)
      else if prefix ''std_'' slug then
        (let stem = drop 4 slug;
             fpath = path_join (ANALYSIS_DIR base_dir) (stem @ ''.json'')
         in load_json_analysis_detail path_exists fpath slug)
      else
        (let fpath = path_join (ANALYSIS_DIR base_dir) (slug @ ''_analysis.md'')
         in if \<not> path_exists fpath then None else Some (MarkdownDetail fpath)))"


section \<open>Severity score extractor (main.py)\<close>

text \<open>
  The three regular expressions of the extractor are written out as matchers. A literal
  under \<open>re.IGNORECASE\<close> is compared after lower-casing both sides.
\<close>

definition prefix_ci :: "string \<Rightarrow> string \<Rightarrow> bool" where
  "prefix_ci p s = prefix (str_lower p) (str_lower s)"

text \<open>\<open>int(g)\<close> for a group \<open>g\<close> matched by \<open>(\d+)\<close>.\<close>

definition digit_value :: "char \<Rightarrow> int" where
  "digit_value c = (case map_of (zip digits [0, 1, 2, 3, 4, 5, 6, 7, 8, 9]) c of
                      Some v \<Rightarrow> v | None \<Rightarrow> 0)"

definition int_of_digits :: "string \<Rightarrow> int" where
  "int_of_digits ds = foldl (\<lambda>a c. 10 * a + digit_value c) 0 ds"

text \<open>\<open>(\d+)\<close>: the longest run of digits, at least one; the group and the rest.\<close>

definition match_digits :: "string \<Rightarrow> (string \<times> string) option" where
  "match_digits s =
     (if takeWhile isdigit s = [] then None
      else Some (takeWhile isdigit s, dropWhile isdigit s))"

text \<open>
  \<open>\s*(?:\*\*)?(\d+)\<close>. The whitespace run and the optional \<open>**\<close> leave no choice
  to backtracking: a shorter run of whitespace is followed by whitespace, which is neither
  a star nor a digit.
\<close>

definition score_value :: "string \<Rightarrow> (string \<times> string) option" where
  "score_value s =
     (let r = dropWhile isspace s
      in match_digits (if prefix ''**'' r then drop 2 r else r))"

text \<open>
  \<open>\s*\*\*Score:\s*(\d+)\<close> after a line feed, and \<open>.*?\n\s*\*\*Score:\s*(\d+)\<close> under
  \<open>re.DOTALL\<close>: the lazy \<open>.*?\<close> stops at the first line feed after which the score
  line matches.
\<close>

definition overall_score_line :: "string \<Rightarrow> string option" where
  "overall_score_line s =
     (let r = dropWhile isspace s
      in if prefix_ci ''**Score:'' r
         then map_option fst (match_digits (dropWhile isspace (drop 8 r)))
         else None)"

fun lazy_overall_score :: "string \<Rightarrow> string option" where
  "lazy_overall_score [] = None"
| "lazy_overall_score (c # cs) =
     (case (if c = CHR 0x0A then overall_score_line cs else None) of
        Some g \<Rightarrow> Some g
      | None \<Rightarrow> lazy_overall_score cs)"

text \<open>
  \<open>re.search(r"Overall Lapse Severity Score.*?\n\s*\*\*Score:\s*(\d+)", audit_content,
  re.IGNORECASE | re.DOTALL)\<close>: group 1 of the leftmost match.
\<close>

fun search_overall :: "string \<Rightarrow> string option" where
  "search_overall [] = None"
| "search_overall (c # cs) =
     (case (if prefix_ci ''Overall Lapse Severity Score'' (c # cs)
            then lazy_overall_score (drop 28 (c # cs)) else None) of
        Some g \<Rightarrow> Some g
      | None \<Rightarrow> search_overall cs)"

text \<open>
  \<open>re.search(r"Lapse Severity Score:\s*(?:\*\*)?(\d+)", audit_content, re.IGNORECASE)\<close>.
\<close>

fun search_lapse :: "string \<Rightarrow> string option" where
  "search_lapse [] = None"
| "search_lapse (c # cs) =
     (case (if prefix_ci ''Lapse Severity Score:'' (c # cs)
            then map_option fst (score_value (drop 21 (c # cs))) else None) of
        Some g \<Rightarrow> Some g
      | None \<Rightarrow> search_lapse cs)"

text \<open>
  \<open>[^\n]*?Score:\s*(?:\*\*)?(\d+)\<close> from the start of a line: the first \<open>Score:\<close> of
  the line that is followed by a number; the group and the text after the match.
\<close>

fun line_score :: "string \<Rightarrow> (string \<times> string) option" where
  "line_score [] = None"
| "line_score (c # cs) =
     (case (if prefix_ci ''Score:'' (c # cs) then score_value (drop 6 (c # cs)) else None) of
        Some r \<Rightarrow> Some r
      | None \<Rightarrow> if c = CHR 0x0A then None else line_score cs)"

text \<open>
  \<open>re.findall(r"(?:^|\n)[^\n]*?Score:\s*(?:\*\*)?(\d+)", audit_content, re.IGNORECASE)\<close>.
  Without \<open>re.MULTILINE\<close> the anchor \<open>^\<close> matches at the start of the text only, which
  \<open>at_start\<close> records; every other match starts at a line feed. After a match the scan
  goes on behind it.
\<close>

function findall_scores :: "bool \<Rightarrow> string \<Rightarrow> string list" where
  "findall_scores at_start s =
     (case (if at_start then line_score s else None) of
        Some (g, rest) \<Rightarrow> g # findall_scores False rest
      | None \<Rightarrow>
          (case s of
             [] \<Rightarrow> []
           | c # cs \<Rightarrow>
               (case (if c = CHR 0x0A then line_score cs else None) of
                  Some (g, rest) \<Rightarrow> g # findall_scores False rest
                | None \<Rightarrow> findall_scores False cs)))"
  by pat_completeness auto
termination
proof (relation "measure (\<lambda>(at_start, s). length s)")
  have digits_shorter: "length r \<le> length s" if "match_digits s = Some (g, r)" for s g r
    using that by (auto simp: match_digits_def length_dropWhile_le split: if_splits)
  have value_shorter: "length r \<le> length s" if "score_value s = Some (g, r)" for s g r
  proof -
    have "length (dropWhile isspace s) \<le> length s" by (rule length_dropWhile_le)
    then show ?thesis
      using that digits_shorter [OF that [unfolded score_value_def Let_def]]
      by (auto split: if_splits)
  qed
  have line_shorter: "length r < length s" if "line_score s = Some (g, r)" for s g r
    using that
  proof (induction s)
    case Nil
    then show ?case by simp
  next
    case (Cons c cs)
    show ?case
    proof (cases "prefix_ci ''Score:'' (c # cs) \<and> score_value (drop 6 (c # cs)) \<noteq> None")
      case True
      then have "score_value (drop 6 (c # cs)) = Some (g, r)" using Cons.prems by auto
      from value_shorter [OF this] show ?thesis by simp
    next
      case False
      then have "line_score cs = Some (g, r)"
        using Cons.prems by (auto split: if_splits option.splits)
      from Cons.IH [OF this] show ?thesis by simp
    qed
  qed
  show "wf (measure (\<lambda>(at_start, s). length s))" by simp
  show "((False, rest), (at_start, s)) \<in> measure (\<lambda>(at_start, s). length s)"
    if "(if at_start then line_score s else None) = Some x" "(g, rest) = x"
    for at_start s x g rest
    using that line_shorter [of s g rest] by (auto split: if_splits)
  show "((False, rest), (at_start, s)) \<in> measure (\<lambda>(at_start, s). length s)"
    if "s = c # cs" "(if c = CHR 0x0A then line_score cs else None) = Some x" "(g, rest) = x"
    for at_start s c cs x g rest
    using that line_shorter [of cs g rest] by (auto split: if_splits)
  show "((False, cs), (at_start, s)) \<in> measure (\<lambda>(at_start, s). length s)"
    if "s = c # cs" for at_start s c cs
    using that by simp
qed

declare findall_scores.simps [simp del]

text \<open>
  The severity block of \<open>load_json_analyses\<close> and of the markdown loop of
  \<open>load_analysis_list\<close>: \<open>severity\<close> is the score that the section itself carries, if any.
\<close>

definition severity_from_audit :: "int option \<Rightarrow> string \<Rightarrow> int option" where
  "severity_from_audit severity audit_content =
     (if audit_content = [] then severity
      else case search_overall audit_content of
        Some g \<Rightarrow> Some (int_of_digits g)
      | None \<Rightarrow>
          (case search_lapse audit_content of
             Some g \<Rightarrow> Some (int_of_digits g)
           | None \<Rightarrow>
               if severity = None
               then (case findall_scores True audit_content of
                       [] \<Rightarrow> severity
                     | g # gs \<Rightarrow> Some (int_of_digits (last (g # gs))))
               else severity))"

text \<open>
  The severity block of \<open>load_analysis_detail\<close>, where the section's own score defaults
  to \<open>0\<close> and \<open>not severity_score\<close> tests for it.
\<close>

definition detail_severity_from_audit :: "int \<Rightarrow> string \<Rightarrow> int" where
  "detail_severity_from_audit severity_score audit_content =
     (if audit_content = [] then severity_score
      else case search_overall audit_content of
        Some g \<Rightarrow> int_of_digits g
      | None \<Rightarrow>
          (case search_lapse audit_content of
             Some g \<Rightarrow> int_of_digits g
           | None \<Rightarrow>
               if severity_score = 0
               then (case findall_scores True audit_content of
                       [] \<Rightarrow> severity_score
                     | g # gs \<Rightarrow> int_of_digits (last (g # gs)))
               else severity_score))"



section \<open>Date normalizer (database.py)\<close>

subsection \<open>Calendar dates\<close>

record date =
  year :: nat
  month :: nat
  day :: nat

definition is_leap :: "nat \<Rightarrow> bool" where
  "is_leap y = (y mod 4 = 0 \<and> (0 < y mod 100 \<or> y mod 400 = 0))"

definition days_in_month :: "nat \<Rightarrow> nat \<Rightarrow> nat" where
  "days_in_month y m =
     (if m = 2 then (if is_leap y then 29 else 28)
      else if m \<in> set [4, 6, 9, 11] then 30 else 31)"

definition valid_date :: "date \<Rightarrow> bool" where
  "valid_date d =
     (1 \<le> year d \<and> year d \<le> 9999 \<and> 1 \<le> month d \<and> month d \<le> 12
      \<and> 1 \<le> day d \<and> day d \<le> days_in_month (year d) (month d))"

text \<open>\<open>datetime(y, m, d).date()\<close>; \<open>None\<close> stands for the \<open>ValueError\<close> of a date that
  does not exist.\<close>

definition make_date :: "nat \<Rightarrow> nat \<Rightarrow> nat \<Rightarrow> date option" where
  "make_date y m d =
     (if valid_date \<lparr>year = y, month = m, day = d\<rparr>
      then Some \<lparr>year = y, month = m, day = d\<rparr> else None)"

definition nat_of_digits :: "string \<Rightarrow> nat" where
  "nat_of_digits ds = nat (int_of_digits ds)"

subsection \<open>\<open>datetime.strptime\<close>\<close>

text \<open>
  \<open>strptime\<close> turns the format into a regular expression: a directive becomes a group of
  alternatives, a run of whitespace becomes \<open>\s+\<close>, any other character stands for itself.
  The expression is matched at the start of the text, under \<open>re.IGNORECASE\<close>, and the
  match has to use up the text. The month names are those of the C locale.
\<close>

datatype directive =
    Dir_Y | Dir_m | Dir_d | Dir_y | Dir_B
  | Whitespace
  | Literal char
  | Bad_directive

definition directive_of :: "char \<Rightarrow> directive" where
  "directive_of c =
     (if c = CHR ''Y'' then Dir_Y else if c = CHR ''m'' then Dir_m
      else if c = CHR ''d'' then Dir_d else if c = CHR ''y'' then Dir_y
      else if c = CHR ''B'' then Dir_B else Bad_directive)"

function compile_format :: "string \<Rightarrow> directive list" where
  "compile_format [] = []"
| "compile_format [c] = (if isspace c then [Whitespace] else [Literal c])"
| "compile_format (c # c' # cs) =
     (if c = CHR ''%'' then directive_of c' # compile_format cs
      else if isspace c then Whitespace # compile_format (dropWhile isspace (c' # cs))
      else Literal c # compile_format (c' # cs))"
  by pat_completeness auto
termination
  by (relation "measure length") (auto simp: less_Suc_eq_le le_SucI length_dropWhile_le)

text \<open>A sequence of character classes, each given by its characters, at the start of a
  text: the matched text and the rest.\<close>

fun class_seq :: "string list \<Rightarrow> string \<Rightarrow> (string \<times> string) option" where
  "class_seq [] s = Some ([], s)"
| "class_seq (cl # cls) [] = None"
| "class_seq (cl # cls) (c # cs) =
     (if c \<in> set cl
      then map_option (\<lambda>(m, r). (c # m, r)) (class_seq cls cs)
      else None)"

definition nonzero_digits :: string where
  "nonzero_digits = ''123456789''"

text \<open>The groups of \<open>_strptime.TimeRE\<close>:
  \<open>%Y\<close> is \<open>\d\d\d\d\<close>, \<open>%y\<close> is \<open>\d\d\<close>, \<open>%m\<close> is \<open>1[0-2]|0[1-9]|[1-9]\<close> and
  \<open>%d\<close> is \<open>3[0-1]|[1-2]\d|0[1-9]|[1-9]| [1-9]\<close>; \<open>%B\<close> lists the month names, the
  longest first.\<close>

definition month_names :: "string list" where
  "month_names =
     [''january'', ''february'', ''march'', ''april'', ''may'', ''june'', ''july'',
      ''august'', ''september'', ''october'', ''november'', ''december'']"

definition month_alternatives :: "string list" where
  "month_alternatives =
     [''september'', ''february'', ''november'', ''december'', ''january'', ''october'',
      ''august'', ''march'', ''april'', ''june'', ''july'', ''may'']"

definition directive_alternatives :: "directive \<Rightarrow> string list list" where
  "directive_alternatives t =
     (case t of
        Dir_Y \<Rightarrow> [[digits, digits, digits, digits]]
      | Dir_y \<Rightarrow> [[digits, digits]]
      | Dir_m \<Rightarrow> [[''1'', ''012''], [''0'', nonzero_digits], [nonzero_digits]]
      | Dir_d \<Rightarrow> [[''3'', ''01''], [''12'', digits], [''0'', nonzero_digits],
                   [nonzero_digits], ['' '', nonzero_digits]]
      | _ \<Rightarrow> [])"

text \<open>The ways in which one element of the expression matches at the start of a text, in
  the order in which the matcher tries them: the matched text and the rest.\<close>

definition match_directive :: "directive \<Rightarrow> string \<Rightarrow> (string \<times> string) list" where
  "match_directive t s =
     (case t of
        Dir_B \<Rightarrow>
          List.map_filter
            (\<lambda>name. if prefix_ci name s
                     then Some (take (length name) s, drop (length name) s) else None)
            month_alternatives
      | Whitespace \<Rightarrow>
          map (\<lambda>k. (take k s, drop k s)) (rev [1 ..< Suc (length (takeWhile isspace s))])
      | Literal c \<Rightarrow> (if prefix [c] s then [([c], drop 1 s)] else [])
      | Bad_directive \<Rightarrow> []
      | _ \<Rightarrow> List.map_filter (\<lambda>alt. class_seq alt s) (directive_alternatives t))"

text \<open>All matches of the whole expression, the first one first: the text found for each
  directive and the text left over.\<close>

fun match_all :: "directive list \<Rightarrow> string \<Rightarrow> ((directive \<times> string) list \<times> string) list" where
  "match_all [] s = [([], s)]"
| "match_all (t # ts) s =
     concat (map (\<lambda>(x, r). map (\<lambda>(found, r'). ((t, x) # found, r')) (match_all ts r))
                 (match_directive t s))"

text \<open>The conversion of the groups: a two-digit year up to 68 is in the century 2000, a
  later one in 1900; a month name counts from \<open>1\<close>; \<open>int\<close> ignores the space that \<open>%d\<close>
  may have matched. The defaults are the year 1900, month 1 and day 1.\<close>

definition index_of :: "string \<Rightarrow> string list \<Rightarrow> nat" where
  "index_of x xs = length (takeWhile (\<lambda>y. y \<noteq> x) xs)"

fun convert :: "(directive \<times> string) list \<Rightarrow> nat \<times> nat \<times> nat \<Rightarrow> nat \<times> nat \<times> nat" where
  "convert [] ymd = ymd"
| "convert ((t, x) # found) (y, m, d) =
     convert found
       (case t of
          Dir_Y \<Rightarrow> (nat_of_digits x, m, d)
        | Dir_y \<Rightarrow> (if nat_of_digits x \<le> 68 then 2000 + nat_of_digits x
                     else 1900 + nat_of_digits x, m, d)
        | Dir_m \<Rightarrow> (y, nat_of_digits x, d)
        | Dir_B \<Rightarrow> (y, Suc (index_of (str_lower x) month_names), d)
        | Dir_d \<Rightarrow> (y, m, nat_of_digits (str_strip x))
        | _ \<Rightarrow> (y, m, d))"

text \<open>\<open>datetime.strptime(s, fmt).date()\<close>; \<open>None\<close> stands for \<open>ValueError\<close>: no match,
  unconverted data, or a date that does not exist.\<close>

definition strptime :: "string \<Rightarrow> string \<Rightarrow> date option" where
  "strptime s fmt =
     (case match_all (compile_format fmt) s of
        [] \<Rightarrow> None
      | (found, rest) # _ \<Rightarrow>
          if rest \<noteq> [] then None
          else (case convert found (1900, 1, 1) of (y, m, d) \<Rightarrow> make_date y m d))"

subsection \<open>\<open>parse_date\<close>\<close>

definition formats :: "string list" where
  "formats =
     [''%Y-%m-%d'', ''%d-%m-%Y'', ''%d.%m.%Y'', ''%d/%m/%Y'', ''%d/%m/%y'', ''%Y/%m/%d'',
      ''%d %B, %Y'', ''%B %d, %Y'']"

text \<open>
  \<open>re.sub(r"(\d+)(st|nd|rd|th)", r"\1", s)\<close>, and the same with a single suffix: a suffix
  that follows a run of digits is dropped. When no suffix follows the run, none follows a
  later start inside the run either, and a suffix cannot start at a digit.
\<close>

function sub_ordinal :: "string list \<Rightarrow> string \<Rightarrow> string" where
  "sub_ordinal sufs [] = []"
| "sub_ordinal sufs (c # cs) =
     (if isdigit c
      then (case find (\<lambda>suf. prefix suf (dropWhile isdigit cs)) sufs of
              Some suf \<Rightarrow>
                c # takeWhile isdigit cs
                  @ sub_ordinal sufs (drop (length suf) (dropWhile isdigit cs))
            | None \<Rightarrow> c # sub_ordinal sufs cs)
      else c # sub_ordinal sufs cs)"
  by pat_completeness auto
termination
  by (relation "measure (\<lambda>(sufs, s). length s)")
     (auto simp: less_Suc_eq_le le_diff_conv intro: trans_le_add1 length_dropWhile_le)

text \<open>The loop over the formats: the cleaned text first, the original text when that
  raises; a date more than one year ahead is passed over (\<open>continue\<close>).\<close>

fun try_formats :: "nat \<Rightarrow> string \<Rightarrow> string \<Rightarrow> string list \<Rightarrow> date option" where
  "try_formats now_year s_clean s [] = None"
| "try_formats now_year s_clean s (fmt # fmts) =
     (case strptime s_clean fmt of
        Some d \<Rightarrow>
          if year d > now_year + 1 then try_formats now_year s_clean s fmts else Some d
      | None \<Rightarrow>
          (case strptime s fmt of
             Some d \<Rightarrow>
               if year d > now_year + 1 then try_formats now_year s_clean s fmts else Some d
           | None \<Rightarrow> try_formats now_year s_clean s fmts))"

text \<open>The class \<open>\w\<close>, and a search for \<open>\b(...)\b\<close> where the group is one of several
  sequences of digit classes: a match starts where the previous character is not a word
  character, and the first alternative that ends at a word boundary is taken.\<close>

definition is_word :: "char \<Rightarrow> bool" where
  "is_word c = (isalpha c \<or> isdigit c \<or> c = CHR ''_'')"

definition token_at :: "string list list \<Rightarrow> string \<Rightarrow> string option" where
  "token_at alternatives s =
     (case List.map_filter
             (\<lambda>alt. case class_seq alt s of
                       Some (g, r) \<Rightarrow>
                         if r = [] then Some g else if is_word (hd r) then None else Some g
                     | None \<Rightarrow> None)
             alternatives of
        [] \<Rightarrow> None
      | g # _ \<Rightarrow> Some g)"

fun search_token :: "string list list \<Rightarrow> bool \<Rightarrow> string \<Rightarrow> string option" where
  "search_token alternatives previous_is_word [] = None"
| "search_token alternatives previous_is_word (c # cs) =
     (case (if previous_is_word then None else token_at alternatives (c # cs)) of
        Some g \<Rightarrow> Some g
      | None \<Rightarrow> search_token alternatives (is_word c) cs)"

definition months :: "(string \<times> nat) list" where
  "months =
     [(''january'', 1), (''february'', 2), (''march'', 3), (''april'', 4), (''may'', 5),
      (''june'', 6), (''july'', 7), (''august'', 8), (''september'', 9), (''october'', 10),
      (''november'', 11), (''december'', 12), (''jan'', 1), (''feb'', 2), (''mar'', 3),
      (''apr'', 4), (''jun'', 6), (''jul'', 7), (''aug'', 8), (''sep'', 9), (''sept'', 9),
      (''oct'', 10), (''nov'', 11), (''dec'', 12)]"

text \<open>
  The verbose extractor up to the date it builds, before the test of the year. \<open>None\<close>
  stands for a missing part and for the exception that \<open>except Exception\<close> swallows when
  the parts do not form a date.
\<close>

definition verbose_date :: "string \<Rightarrow> date option" where
  "verbose_date s =
     (let lower_s = str_lower s;
          clean_s = sub_ordinal [''st'', ''nd'', ''rd'', ''th''] lower_s;
          clean_s = str_replace ''  '' '' '' (str_replace '','' '' ''
                      (str_replace ''on this'' '''' (str_replace ''day of'' '''' clean_s)));
          year_match = search_token [[''2'', ''0'', digits, digits]] False clean_s;
          month_match = find (\<lambda>(m_name, m_val). str_contains m_name clean_s) months;
          day_match = search_token [[nonzero_digits], [''12'', digits], [''3'', ''01'']]
                        False clean_s
      in case (year_match, month_match, day_match) of
           (Some year_text, Some (m_name, m_val), Some day_text) \<Rightarrow>
             make_date (nat_of_digits year_text) m_val (nat_of_digits day_text)
         | _ \<Rightarrow> None)"

definition clean_ordinals :: "string \<Rightarrow> string" where
  "clean_ordinals s =
     sub_ordinal [''th''] (sub_ordinal [''rd''] (sub_ordinal [''nd''] (sub_ordinal [''st''] s)))"

text \<open>\<open>now_year\<close> is \<open>datetime.now().year\<close>.\<close>

definition parse_date :: "nat \<Rightarrow> string \<Rightarrow> date option" where
  "parse_date now_year date_str =
     (if date_str = [] then None
      else
        let s = str_strip date_str;
            s_clean = clean_ordinals s
        in case try_formats now_year s_clean s formats of
             Some d \<Rightarrow> Some d
           | None \<Rightarrow>
               (case verbose_date s of
                  Some d \<Rightarrow> if year d > now_year + 1 then None else Some d
                | None \<Rightarrow> None))"

text \<open>The dates that the strategies read from a text, whatever their year: one per
  format that matches, and the date of the verbose extractor.\<close>

definition format_reading :: "string \<Rightarrow> string \<Rightarrow> date option" where
  "format_reading date_str fmt =
     (case strptime (clean_ordinals (str_strip date_str)) fmt of
        Some d \<Rightarrow> Some d
      | None \<Rightarrow> strptime (str_strip date_str) fmt)"

definition readings :: "string \<Rightarrow> date list" where
  "readings date_str =
     List.map_filter (format_reading date_str) formats
       @ (case verbose_date (str_strip date_str) of Some d \<Rightarrow> [d] | None \<Rightarrow> [])"


section \<open>Markdown table parser (main.py)\<close>

subsection \<open>\<open>strip_code_fences\<close> and \<open>strip_bold\<close>\<close>

text \<open>
  \<open>\s*$\<close> under \<open>re.MULTILINE\<close>, at the start of a text: the rest after the match. The
  greedy \<open>\s*\<close> gives back whitespace until it stands at the end of the text or before a
  line feed, so it stops before the last line feed of the whitespace run unless the run
  reaches the end of the text.
\<close>

definition eol_tail :: "string \<Rightarrow> string option" where
  "eol_tail s =
     (let v = takeWhile isspace s in
      if dropWhile isspace s = [] then Some []
      else if CHR 0x0A \<in> set v
           then Some (drop (length v - Suc (length (takeWhile (\<lambda>c. c \<noteq> CHR 0x0A) (rev v)))) s)
      else None)"

text \<open>
  The three patterns without their anchor \<open>^\<close>, at the start of a text: the rest after
  the match. \<open>\s*```\w*\s*$\<close>, \<open>\s*#+ .*$\<close> and \<open>\s*---+\s*$\<close>; the leading \<open>\s*\<close> may
  run over blank lines.
\<close>

definition fence_core :: "string \<Rightarrow> string option" where
  "fence_core s =
     (let r = dropWhile isspace s in
      if prefix ''```'' r then eol_tail (dropWhile is_word (drop 3 r)) else None)"

definition heading_core :: "string \<Rightarrow> string option" where
  "heading_core s =
     (let r = dropWhile isspace s;
          h = dropWhile (\<lambda>c. c = CHR ''#'') r in
      if prefix ''#'' r \<and> prefix '' '' h
      then Some (dropWhile (\<lambda>c. c \<noteq> CHR 0x0A) (drop 1 h)) else None)"

definition rule_core :: "string \<Rightarrow> string option" where
  "rule_core s =
     (let r = dropWhile isspace s in
      if prefix ''---'' r then eol_tail (dropWhile (\<lambda>c. c = CHR ''-'') r) else None)"

text \<open>
  \<open>re.sub(r"^...", "", text, flags=re.MULTILINE)\<close>: a match may start at the start of
  the text and after a line feed; its characters are dropped (\<open>skip\<close> counts those still
  to drop) and the scan goes on behind it.
\<close>

fun sub_at_line_starts ::
  "(string \<Rightarrow> string option) \<Rightarrow> bool \<Rightarrow> nat \<Rightarrow> string \<Rightarrow> string" where
  "sub_at_line_starts core at_line_start skip [] = []"
| "sub_at_line_starts core at_line_start skip (c # cs) =
     (if 0 < skip then sub_at_line_starts core (c = CHR 0x0A) (skip - 1) cs
      else case (if at_line_start then core (c # cs) else None) of
             Some rest \<Rightarrow>
               sub_at_line_starts core (c = CHR 0x0A) (length cs - length rest) cs
           | None \<Rightarrow> c # sub_at_line_starts core (c = CHR 0x0A) 0 cs)"

definition strip_code_fences :: "string \<Rightarrow> string" where
  "strip_code_fences text =
     (if text = [] then text
      else str_strip
             (sub_at_line_starts rule_core True 0
               (sub_at_line_starts heading_core True 0
                 (sub_at_line_starts fence_core True 0 text))))"

text \<open>
  \<open>re.sub(r"\*\*([^*]*?)\*\*", r"\1", text)\<close>: two stars, a run without a star, two
  stars; the stars are dropped.
\<close>

function strip_bold :: "string \<Rightarrow> string" where
  "strip_bold [] = []"
| "strip_bold (c # cs) =
     (if prefix ''**'' (c # cs)
         \<and> prefix ''**'' (dropWhile (\<lambda>x. x \<noteq> CHR ''*'') (drop 1 cs))
      then takeWhile (\<lambda>x. x \<noteq> CHR ''*'') (drop 1 cs)
             @ strip_bold (drop 2 (dropWhile (\<lambda>x. x \<noteq> CHR ''*'') (drop 1 cs)))
      else c # strip_bold cs)"
  by pat_completeness auto
termination
  by (relation "measure length")
     (auto simp: less_Suc_eq_le le_diff_conv
           intro: trans_le_add1 order_trans [OF length_dropWhile_le])

subsection \<open>Splitting and dictionaries\<close>

text \<open>\<open>s.split(sep)\<close> for a separator of one character, and \<open>s.strip(chars)\<close>.\<close>

fun split_on :: "char \<Rightarrow> string \<Rightarrow> string list" where
  "split_on sep [] = [[]]"
| "split_on sep (c # cs) =
     (if c = sep then [] # split_on sep cs
      else (case split_on sep cs of
              w # ws \<Rightarrow> (c # w) # ws
            | [] \<Rightarrow> [[c]]))"

definition strip_chars :: "string \<Rightarrow> string \<Rightarrow> string" where
  "strip_chars chars s =
     rev (dropWhile (\<lambda>c. c \<in> set chars) (rev (dropWhile (\<lambda>c. c \<in> set chars) s)))"

text \<open>A \<open>dict\<close> keeps its keys in the order of their first insertion; \<open>d[k] = v\<close> replaces
  the value of a key that is present and appends a new key.\<close>

type_synonym row = "(string \<times> string) list"

fun dict_set :: "('k \<times> 'v) list \<Rightarrow> 'k \<Rightarrow> 'v \<Rightarrow> ('k \<times> 'v) list" where
  "dict_set [] k v = [(k, v)]"
| "dict_set ((k', v') # d) k v =
     (if k' = k then (k, v) # d else (k', v') # dict_set d k v)"

subsection \<open>\<open>parse_markdown_table\<close>\<close>

definition table_lines :: "string \<Rightarrow> string list" where
  "table_lines md_table =
     filter (prefix ''|'')
       (filter (\<lambda>l. l \<noteq> [])
          (map str_strip (split_on (CHR 0x0A) (strip_code_fences md_table))))"

definition table_headers :: "string \<Rightarrow> string list" where
  "table_headers header_line =
     map (\<lambda>h. str_replace '':'' '''' (strip_bold (str_strip h)))
         (split_on (CHR ''|'') (strip_chars ''|'' header_line))"

text \<open>One data row: the cell \<open>cols[i]\<close>, or the empty string when the row is short, is
  stored under the trimmed header \<open>i\<close>.\<close>

definition table_row :: "string list \<Rightarrow> string \<Rightarrow> row" where
  "table_row headers line =
     (let cols = map str_strip (split_on (CHR ''|'') (strip_chars ''|'' line)) in
      foldl (\<lambda>row_dict (i, header).
               dict_set row_dict (str_strip header) (if i < length cols then cols ! i else []))
            [] (zip [0 ..< length headers] headers))"

definition table_rows :: "string \<Rightarrow> row list" where
  "table_rows md_table =
     map (table_row (table_headers (table_lines md_table ! 0)))
         (drop 2 (table_lines md_table))"

text \<open>The vertical layout: each row with two keys or more gives the entry
  \<open>r[keys[0]].lower().strip()\<close> \<open>\<mapsto>\<close> \<open>r[keys[1]]\<close>.\<close>

definition row_entry :: "row \<Rightarrow> string \<times> string" where
  "row_entry r = (str_strip (str_lower (snd (r ! 0))), snd (r ! 1))"

definition mapped_dict_of :: "row list \<Rightarrow> row" where
  "mapped_dict_of rows =
     foldl (\<lambda>mapped_dict r.
              if 2 \<le> length r
              then dict_set mapped_dict (fst (row_entry r)) (snd (row_entry r))
              else mapped_dict)
           [] rows"

text \<open>
  The indexed reads stand under the guards of the source: \<open>table_lines[0]\<close> after the
  test for three lines, \<open>headers[0]\<close> after the test for two headers, \<open>keys[0]\<close> and
  \<open>keys[1]\<close> after the test for two keys.
\<close>

definition parse_markdown_table :: "string \<Rightarrow> row list" where
  "parse_markdown_table md_table =
     (if md_table = [] \<or> str_strip md_table = [] then []
      else if strip_code_fences md_table = [] then []
      else if length (table_lines md_table) < 3 then []
      else
        let headers = table_headers (table_lines md_table ! 0);
            rows = table_rows md_table
        in if rows = [] then []
           else if 2 \<le> length headers
                   \<and> str_strip (str_lower (headers ! 0)) \<in> set [''field'', ''metadata field'']
                then (if mapped_dict_of rows = [] then [] else [mapped_dict_of rows])
           else rows)"


section \<open>Batch load (main.py)\<close>

text \<open>The summary that the loop body appends for one document.\<close>

record summary =
  slug :: string
  filename :: string
  processed_on :: string
  outcome :: string
  court :: string
  judge :: string
  date_shown :: string
  case_number :: string
  parties :: string
  severity_score :: "int option"
  summary_snippet :: string
  source :: string

text \<open>
  A file of a scanned directory is represented by what the loop does with it: the read
  (\<open>open\<close>, \<open>f.read()\<close> or \<open>json.load\<close>) raises, which \<open>except Exception: continue\<close>
  catches; or the read succeeds and the loop body, which stands outside the \<open>try\<close>,
  raises (as \<open>data.get\<close> does when the JSON text is not an object); or the body builds
  the summary. How the body builds it is the work of the record assembler and is not
  repeated here.
\<close>

datatype scanned_file =
    Read_fails
  | Body_raises
  | Gives summary

datatype batch_error = Uncaught_exception

fun load_json_analyses :: "scanned_file list \<Rightarrow> batch_error + summary list" where
  "load_json_analyses [] = Inr []"
| "load_json_analyses (Read_fails # files) = load_json_analyses files"
| "load_json_analyses (Body_raises # files) = Inl Uncaught_exception"
| "load_json_analyses (Gives s # files) =
     (case load_json_analyses files of
        Inl e \<Rightarrow> Inl e
      | Inr results \<Rightarrow> Inr (s # results))"

text \<open>
  The dictionary returned by \<open>load_analysis_list\<close>. \<open>avg_severity\<close> is
  \<open>round(sum(severity_scores) / len(severity_scores), 1)\<close>, or \<open>0\<close> for no score, computed
  in floating point; the record keeps the scores from which it is computed.
\<close>

record batch =
  analyses :: "summary list"
  total :: nat
  severity_scores :: "int list"
  outcomes :: "(string \<times> nat) list"

definition count_outcome :: "(string \<times> nat) list \<Rightarrow> string \<Rightarrow> (string \<times> nat) list" where
  "count_outcome outcomes_dict o_name =
     dict_set outcomes_dict o_name
       (case map_of outcomes_dict o_name of Some n \<Rightarrow> n + 1 | None \<Rightarrow> 0 + 1)"

definition add_severity :: "int list \<Rightarrow> summary \<Rightarrow> int list" where
  "add_severity scores a =
     (case severity_score a of Some v \<Rightarrow> scores @ [v] | None \<Rightarrow> scores)"

text \<open>The loop over the markdown files: the state is the triple of \<open>analyses\<close>,
  \<open>severity_scores\<close> and \<open>outcomes\<close>.\<close>

fun markdown_loop ::
  "scanned_file list \<Rightarrow> summary list \<times> int list \<times> (string \<times> nat) list
   \<Rightarrow> batch_error + summary list \<times> int list \<times> (string \<times> nat) list" where
  "markdown_loop [] state = Inr state"
| "markdown_loop (Read_fails # files) state = markdown_loop files state"
| "markdown_loop (Body_raises # files) state = Inl Uncaught_exception"
| "markdown_loop (Gives s # files) (found, scores, counts) =
     markdown_loop files (found @ [s], add_severity scores s, count_outcome counts (outcome s))"

definition load_analysis_list ::
  "scanned_file list \<Rightarrow> scanned_file list \<Rightarrow> scanned_file list \<Rightarrow> batch_error + batch" where
  "load_analysis_list md_files std_files npa_files =
     (case markdown_loop md_files
             ([], [], [(''Acquitted'', 0), (''Convicted'', 0), (''Unknown'', 0)]) of
        Inl e \<Rightarrow> Inl e
      | Inr (found, scores, counts) \<Rightarrow>
          (case load_json_analyses std_files of
             Inl e \<Rightarrow> Inl e
           | Inr std_json \<Rightarrow>
               (case load_json_analyses npa_files of
                  Inl e \<Rightarrow> Inl e
                | Inr npa_json \<Rightarrow>
                    Inr \<lparr>analyses = found @ std_json @ npa_json,
                         total = length (found @ std_json @ npa_json),
                         severity_scores = foldl add_severity scores (std_json @ npa_json),
                         outcomes = foldl (\<lambda>counts a. count_outcome counts (outcome a))
                                      counts (std_json @ npa_json)\<rparr>)))"




text \<open>A summary for the examples.\<close>

definition example_summary :: summary where
  "example_summary =
     \<lparr>slug = ''npa_12'', filename = ''12.json'', processed_on = ''2025-10-09'',
      outcome = ''Convicted'', court = ''Sessions Court'', judge = [], date_shown = [],
      case_number = ''SC.No.12 of 2024'', parties = [], severity_score = Some 7,
      summary_snippet = ''The accused was found guilty.'', source = ''NPA''\<rparr>"


section \<open>Facts about the string operations\<close>

lemma isspace_lower_char: "isspace (lower_char c) = isspace c"
  by (simp add: isspace_def lower_char_def ascii_uppercase_def ascii_lowercase_def)

lemma isspace_lower_comp: "isspace \<circ> lower_char = isspace"
  by (rule ext) (simp add: isspace_lower_char)

lemma strip_lower: "str_strip (str_lower s) = str_lower (str_strip s)"
  by (simp add: str_strip_def str_lower_def dropWhile_map rev_map isspace_lower_comp)

lemma str_contains_sublist: "str_contains x s = sublist x s"
  by (induction s) (auto simp: sublist_Cons_right)

lemma dropWhile_keeps:
  assumes "x \<noteq> []" "\<not> P (hd x)"
  shows "\<exists>a'. dropWhile P (a @ x @ b) = a' @ x @ b"
proof (cases "\<forall>c\<in>set a. P c")
  case True
  then have "dropWhile P (a @ x @ b) = dropWhile P (x @ b)"
    by (simp add: dropWhile_append)
  also have "\<dots> = x @ b" using assms by (cases x) auto
  finally show ?thesis by (metis append_Nil)
next
  case False
  then have "dropWhile P (a @ x @ b) = dropWhile P a @ x @ b"
    by (auto simp add: dropWhile_append)
  then show ?thesis by blast
qed

text \<open>A word without whitespace at its ends survives \<open>strip\<close>.\<close>

lemma sublist_strip:
  assumes "sublist x s" "x \<noteq> []" "\<not> isspace (hd x)" "\<not> isspace (last x)"
  shows "sublist x (str_strip s)"
proof -
  from assms(1) obtain a b where "s = a @ x @ b" by (auto simp: sublist_def)
  then obtain a' where 1: "dropWhile isspace s = a' @ x @ b"
    using dropWhile_keeps[of x isspace a b] assms(2,3) by blast
  have "rev (a' @ x @ b) = rev b @ rev x @ rev a'" by simp
  moreover have "rev x \<noteq> []" "\<not> isspace (hd (rev x))"
    using assms by (simp_all add: hd_rev)
  ultimately obtain b' where "dropWhile isspace (rev (a' @ x @ b)) = b' @ rev x @ rev a'"
    using dropWhile_keeps[of "rev x" isspace "rev b" "rev a'"] by auto
  then have "str_strip s = a' @ x @ rev b'" by (simp add: str_strip_def 1)
  then show ?thesis by (auto simp: sublist_def)
qed

lemma strip_sublist: "sublist (str_strip s) s"
proof -
  have "suffix (dropWhile isspace s) s" by (rule suffix_dropWhile)
  moreover have "prefix (str_strip s) (dropWhile isspace s)"
    unfolding str_strip_def
    by (metis suffix_dropWhile suffix_to_prefix rev_rev_ident)
  ultimately show ?thesis
    by (meson prefix_imp_sublist suffix_imp_sublist sublist_order.order.trans)
qed

lemma sublist_map: "sublist x s \<Longrightarrow> sublist (map f x) (map f s)"
  unfolding sublist_def by (metis map_append)


lemma contains_strip_lower:
  assumes "str_contains x (str_lower (str_strip s))"
  shows "str_contains x (str_lower s)"
proof -
  have "sublist (str_lower (str_strip s)) (str_lower s)"
    unfolding str_lower_def by (rule sublist_map) (rule strip_sublist)
  with assms show ?thesis
    unfolding str_contains_sublist by (meson sublist_order.order.trans)
qed

lemma path_join_no_slash:
  "\<not> suffix ''/'' (path_join b (x @ ''s''))" "path_join b (x @ ''s'') \<noteq> []"
  by (auto simp: path_join_def suffix_def)


section \<open>District canonicalizer: the exclusion signal\<close>

text \<open>
  C4 (as amended). The Ranga Reddy aliases are tested before \<open>lucknow\<close>. For every input
  string that contains \<open>lucknow\<close> in any letter case and none of the thirteen Ranga Reddy
  alias substrings, \<open>normalize_district\<close> returns \<open>None\<close>, the exclusion signal, which is
  not the value \<open>Unknown\<close>.
\<close>

theorem lucknow_excluded:
  assumes "str_contains ''lucknow'' (str_lower s)"
      and "\<not> list_ex (\<lambda>x. str_contains x (str_lower s)) ranga_reddy_aliases"
  shows "normalize_district (Some s) = None
         \<and> normalize_district (Some s) \<noteq> Some ''Unknown''"
proof -
  let ?d = "str_lower (str_strip s)"
  have nonempty: "s \<noteq> []"
    using assms(1) by (cases s) (auto simp: str_lower_def)
  have "sublist ''lucknow'' (str_strip (str_lower s))"
    using assms(1) unfolding str_contains_sublist
    by (rule sublist_strip) (simp_all add: isspace_def)
  then have lk: "str_contains ''lucknow'' ?d"
    by (simp add: str_contains_sublist strip_lower)
  have rr: "\<not> list_ex (\<lambda>x. str_contains x ?d) ranga_reddy_aliases"
    using assms(2) contains_strip_lower unfolding list_ex_iff by blast
  show ?thesis
    using nonempty lk rr by (simp add: normalize_district_def Let_def)
qed

theorem lucknow_excluded_witness:
  "str_contains ''lucknow'' (str_lower ''Dist. LUCKNOW'')
   \<and> \<not> list_ex (\<lambda>x. str_contains x (str_lower ''Dist. LUCKNOW'')) ranga_reddy_aliases
   \<and> normalize_district (Some ''Dist. LUCKNOW'') = None"
proof -
  have h1: "str_contains ''lucknow'' (str_lower ''Dist. LUCKNOW'')"
    by code_simp
  have h2: "\<not> list_ex (\<lambda>x. str_contains x (str_lower ''Dist. LUCKNOW'')) ranga_reddy_aliases"
    by code_simp
  from lucknow_excluded [OF h1 h2] h1 h2 show ?thesis by simp
qed

text \<open>
  C4 as stated fails: this input contains \<open>lucknow\<close>, and the Ranga Reddy rule, which comes
  first, gives it a district.
\<close>

theorem lucknow_counterexample:
  "str_contains ''lucknow'' (str_lower ''Ranga Reddy (transferred from Lucknow)'')
   \<and> normalize_district (Some ''Ranga Reddy (transferred from Lucknow)'') = Some ''Ranga Reddy''"
  by code_simp


section \<open>District canonicalizer: idempotence\<close>

lemma stable_districts_fixed:
  "list_all (\<lambda>v. normalize_district (Some v) = Some v) stable_districts"
  by code_simp

text \<open>
  Three ways in which a second pass changes the result of the first: the exclusion signal
  becomes \<open>Unknown\<close>; \<open>Warangal\<close>, the result for \<open>Hanamkonda\<close>, contains the alias \<open>ranga\<close>;
  and the clean-up of free text can uncover an alias that the first pass did not see.
\<close>

lemma second_pass_warangal:
  "normalize_district (Some ''Hanamkonda'') = Some ''Warangal''
   \<and> normalize_district (Some ''Warangal'') = Some ''Ranga Reddy''"
  by code_simp

lemma second_pass_free_text:
  "normalize_district (Some ''Ran.ga'') = Some ''Ranga''
   \<and> normalize_district (Some ''Ranga'') = Some ''Ranga Reddy''"
  by code_simp

text \<open>
  C5 (as amended). For every input string whose canonical result is one of Ranga Reddy,
  Nalgonda, Mahabubnagar, Nizamabad, Adilabad, Karimnagar, Khammam, Sangareddy, Siddipet,
  Medak, Hyderabad, Medchal-Malkajgiri, Vikarabad and Unknown, a second application of
  \<open>normalize_district\<close> returns the same result; and each of the aliases \<open>Cyberabad\<close>,
  \<open>L.B Nagar\<close> and \<open>Serilingampally\<close> maps to exactly \<open>Ranga Reddy\<close>.
\<close>

theorem normalize_district_stable:
  "(normalize_district (Some s) = Some v \<and> v \<in> set stable_districts
      \<longrightarrow> normalize_district (normalize_district (Some s)) = normalize_district (Some s))
   \<and> normalize_district (Some ''Cyberabad'') = Some ''Ranga Reddy''
   \<and> normalize_district (Some ''L.B Nagar'') = Some ''Ranga Reddy''
   \<and> normalize_district (Some ''Serilingampally'') = Some ''Ranga Reddy''"
proof -
  have fixed: "\<And>v. v \<in> set stable_districts \<Longrightarrow> normalize_district (Some v) = Some v"
    using stable_districts_fixed by (simp add: list_all_iff)
  have a1: "normalize_district (Some ''Cyberabad'') = Some ''Ranga Reddy''" by code_simp
  have a2: "normalize_district (Some ''L.B Nagar'') = Some ''Ranga Reddy''" by code_simp
  have a3: "normalize_district (Some ''Serilingampally'') = Some ''Ranga Reddy''" by code_simp
  show ?thesis using fixed a1 a2 a3 by auto
qed

theorem normalize_district_stable_witness:
  "normalize_district (Some ''  Miryalaguda Dist.'') = Some ''Nalgonda''
   \<and> ''Nalgonda'' \<in> set stable_districts
   \<and> normalize_district (normalize_district (Some ''  Miryalaguda Dist.''))
       = normalize_district (Some ''  Miryalaguda Dist.'')"
proof -
  have h1: "normalize_district (Some ''  Miryalaguda Dist.'') = Some ''Nalgonda''"
    by code_simp
  have h2: "''Nalgonda'' \<in> set stable_districts"
    by (simp add: stable_districts_def)
  from normalize_district_stable [of "''  Miryalaguda Dist.''" "''Nalgonda''"] h1 h2
  show ?thesis by simp
qed

text \<open>
  C5 as stated fails: \<open>Lucknow\<close> is given the exclusion signal, and the canonicalizer maps
  the exclusion signal to \<open>Unknown\<close>.
\<close>

theorem normalize_district_counterexample:
  "normalize_district (normalize_district (Some ''Lucknow''))
     \<noteq> normalize_district (Some ''Lucknow'')"
  by code_simp


section \<open>Outcome classifier: conviction before acquittal\<close>

text \<open>
  C10. For every file name that does not start, in any letter case, with \<open>ACQUITTED\<close>,
  \<open>CONVICTED\<close> or \<open>CONVICTION\<close>, and every legal summary whose lower-cased text contains
  both one of the conviction phrases and one of the acquittal phrases, the classifier
  returns \<open>Convicted\<close>.
\<close>

theorem outcome_conviction_first:
  assumes "\<not> prefix ''ACQUITTED'' (str_upper file_name)"
      and "\<not> prefix ''CONVICTED'' (str_upper file_name)"
      and "\<not> prefix ''CONVICTION'' (str_upper file_name)"
      and "kc \<in> set conviction_keywords" and "str_contains kc (str_lower legal_summary)"
      and "ka \<in> set acquittal_keywords" and "str_contains ka (str_lower legal_summary)"
  shows "extract_outcome_from_filename file_name legal_summary = ''Convicted''"
proof -
  have "kc \<noteq> []" using assms(4) by (auto simp: conviction_keywords_def)
  with assms(5) have "legal_summary \<noteq> []"
    by (cases legal_summary) (auto simp: str_lower_def)
  moreover have "list_ex (\<lambda>kw. str_contains kw (str_lower legal_summary)) conviction_keywords"
    using assms(4,5) by (auto simp: list_ex_iff)
  ultimately show ?thesis
    using assms(1-3) by (simp add: extract_outcome_from_filename_def Let_def)
qed

theorem outcome_conviction_first_witness:
  "extract_outcome_from_filename ''case_12_analysis.md''
     ''The accused was acquitted on count one but found guilty on count two.''
   = ''Convicted''"
proof -
  let ?f = "''case_12_analysis.md''"
  let ?t = "''The accused was acquitted on count one but found guilty on count two.''"
  have h1: "\<not> prefix ''ACQUITTED'' (str_upper ?f)" by code_simp
  have h2: "\<not> prefix ''CONVICTED'' (str_upper ?f)" by code_simp
  have h3: "\<not> prefix ''CONVICTION'' (str_upper ?f)" by code_simp
  have h4: "''found guilty'' \<in> set conviction_keywords" by (simp add: conviction_keywords_def)
  have h5: "str_contains ''found guilty'' (str_lower ?t)" by code_simp
  have h6: "''acquitted'' \<in> set acquittal_keywords" by (simp add: acquittal_keywords_def)
  have h7: "str_contains ''acquitted'' (str_lower ?t)" by code_simp
  show ?thesis by (rule outcome_conviction_first [OF h1 h2 h3 h4 h5 h6 h7])
qed


section \<open>Detail lookup: slug prefixes\<close>

text \<open>
  C9. The slug \<open>npa_12\<close> is looked up as the file \<open>12.json\<close> of the NPA directory and the
  slug \<open>std_ACQUITTED_x\<close> as the file \<open>ACQUITTED_x.json\<close> of the standard directory: the
  lookup returns that JSON file when it exists and nothing otherwise. For every slug that
  starts with \<open>npa_\<close> or \<open>std_\<close>, exactly these four characters are removed to form the
  file name, and the result is never a markdown file.
\<close>

theorem detail_lookup_by_prefix:
  "load_analysis_detail base_dir path_exists ''npa_12'' =
     (if path_exists (NPA_ANALYSIS_DIR base_dir @ ''/12.json'')
      then Some (JsonDetail (NPA_ANALYSIS_DIR base_dir @ ''/12.json'') ''npa_12'') else None)
   \<and> load_analysis_detail base_dir path_exists ''std_ACQUITTED_x'' =
     (if path_exists (ANALYSIS_DIR base_dir @ ''/ACQUITTED_x.json'')
      then Some (JsonDetail (ANALYSIS_DIR base_dir @ ''/ACQUITTED_x.json'') ''std_ACQUITTED_x'')
      else None)
   \<and> load_analysis_detail base_dir path_exists (''npa_'' @ stem) =
       load_json_analysis_detail path_exists
         (path_join (NPA_ANALYSIS_DIR base_dir) (stem @ ''.json'')) (''npa_'' @ stem)
   \<and> load_analysis_detail base_dir path_exists (''std_'' @ stem) =
       load_json_analysis_detail path_exists
         (path_join (ANALYSIS_DIR base_dir) (stem @ ''.json'')) (''std_'' @ stem)
   \<and> (prefix ''npa_'' any_slug \<or> prefix ''std_'' any_slug
        \<longrightarrow> load_analysis_detail base_dir path_exists any_slug \<noteq> Some (MarkdownDetail p))"
proof -
  have n: "\<not> suffix ''/'' (NPA_ANALYSIS_DIR base_dir)" "NPA_ANALYSIS_DIR base_dir \<noteq> []"
    using path_join_no_slash [of base_dir "''npa_analysis_document''"]
    by (auto simp: NPA_ANALYSIS_DIR_def)
  have a: "\<not> suffix ''/'' (ANALYSIS_DIR base_dir)" "ANALYSIS_DIR base_dir \<noteq> []"
    using path_join_no_slash [of base_dir "''analysis_document''"]
    by (auto simp: ANALYSIS_DIR_def)
  have 1: "path_join (NPA_ANALYSIS_DIR base_dir) ''12.json'' = NPA_ANALYSIS_DIR base_dir @ ''/12.json''"
    using n by (simp add: path_join_def)
  have 2: "path_join (ANALYSIS_DIR base_dir) ''ACQUITTED_x.json''
             = ANALYSIS_DIR base_dir @ ''/ACQUITTED_x.json''"
    using a by (simp add: path_join_def)
  have c1: "load_analysis_detail base_dir path_exists ''npa_12'' =
     (if path_exists (NPA_ANALYSIS_DIR base_dir @ ''/12.json'')
      then Some (JsonDetail (NPA_ANALYSIS_DIR base_dir @ ''/12.json'') ''npa_12'') else None)"
    using 1 by (simp add: load_analysis_detail_def load_json_analysis_detail_def)
  have c2: "load_analysis_detail base_dir path_exists ''std_ACQUITTED_x'' =
     (if path_exists (ANALYSIS_DIR base_dir @ ''/ACQUITTED_x.json'')
      then Some (JsonDetail (ANALYSIS_DIR base_dir @ ''/ACQUITTED_x.json'') ''std_ACQUITTED_x'')
      else None)"
    using 2 by (simp add: load_analysis_detail_def load_json_analysis_detail_def)
  have c3: "load_analysis_detail base_dir path_exists (''npa_'' @ stem) =
       load_json_analysis_detail path_exists
         (path_join (NPA_ANALYSIS_DIR base_dir) (stem @ ''.json'')) (''npa_'' @ stem)"
    by (simp add: load_analysis_detail_def)
  have c4: "load_analysis_detail base_dir path_exists (''std_'' @ stem) =
       load_json_analysis_detail path_exists
         (path_join (ANALYSIS_DIR base_dir) (stem @ ''.json'')) (''std_'' @ stem)"
    by (simp add: load_analysis_detail_def)
  have c5: "prefix ''npa_'' any_slug \<or> prefix ''std_'' any_slug
        \<longrightarrow> load_analysis_detail base_dir path_exists any_slug \<noteq> Some (MarkdownDetail p)"
    by (auto simp: load_analysis_detail_def load_json_analysis_detail_def Let_def)
  show ?thesis using c1 c2 c3 c4 c5 by blast
qed

text \<open>
  A markdown file named after the whole any_slug exists and the JSON file does not: the
  lookup of \<open>npa_12\<close> finds nothing.
\<close>

theorem detail_lookup_by_prefix_witness:
  "prefix ''npa_'' ''npa_12''
   \<and> load_analysis_detail ''/srv/app'' (\<lambda>p. p = ''/srv/app/analysis_documents/npa_12_analysis.md'')
       ''npa_12'' = None"
proof -
  have h: "prefix ''npa_'' ''npa_12''" by simp
  have e: "load_analysis_detail ''/srv/app''
             (\<lambda>p. p = ''/srv/app/analysis_documents/npa_12_analysis.md'') ''npa_12''
           \<noteq> Some (MarkdownDetail ''/srv/app/analysis_documents/npa_12_analysis.md'')"
    using detail_lookup_by_prefix [of "''/srv/app''"
        "\<lambda>p. p = ''/srv/app/analysis_documents/npa_12_analysis.md''" "[]" "''npa_12''"
        "''/srv/app/analysis_documents/npa_12_analysis.md''"] h
    by blast
  have "load_analysis_detail ''/srv/app''
          (\<lambda>p. p = ''/srv/app/analysis_documents/npa_12_analysis.md'') ''npa_12'' = None"
    by code_simp
  with h e show ?thesis by simp
qed

section \<open>Severity score extractor: facts about the matchers\<close>

lemma str_lower_append: "str_lower (a @ b) = str_lower a @ str_lower b"
  by (simp add: str_lower_def)

lemma length_str_lower: "length (str_lower s) = length s"
  by (simp add: str_lower_def)

lemma heading_no_border:
  "list_all (\<lambda>k. drop k ''overall lapse severity score''
                   \<noteq> take (28 - k) ''overall lapse severity score'') [1..<28]"
  by code_simp

lemma heading_lower:
  "str_lower ''Overall Lapse Severity Score'' = ''overall lapse severity score''"
  by code_simp

lemma prefix_within:
  assumes "prefix p (a @ b)" "length p \<le> length a"
  shows "prefix p a"
proof -
  from assms(1) have "take (length p) (a @ b) = p"
    by (metis append_eq_conv_conj prefix_def)
  moreover have "take (length p) (a @ b) = take (length p) a"
    using assms(2) by simp
  ultimately show ?thesis by (metis take_is_prefix)
qed

lemma overlap_border:
  assumes "prefix p (u @ p @ r)" "length u < length p"
  shows "drop (length u) p = take (length p - length u) p"
proof -
  from assms(1) have "take (length p) (u @ p @ r) = p"
    by (metis append_eq_conv_conj prefix_def)
  then have "drop (length u) p = drop (length u) (take (length p) (u @ p @ r))"
    by simp
  also have "\<dots> = take (length p - length u) p"
    using assms(2) by (simp add: drop_take)
  finally show ?thesis .
qed

text \<open>No occurrence of the heading starts inside a prefix that does not contain it.\<close>

lemma no_heading_in_prefix:
  assumes "\<not> str_contains ''overall lapse severity score'' (str_lower pre)"
      and "suffix u pre" and "u \<noteq> []"
  shows "\<not> prefix_ci ''Overall Lapse Severity Score''
            (u @ ''Overall Lapse Severity Score'' @ rest)"
proof
  define P where "P = ''overall lapse severity score''"
  have lenP: "length P = 28" by (simp add: P_def)
  assume "prefix_ci ''Overall Lapse Severity Score'' (u @ ''Overall Lapse Severity Score'' @ rest)"
  then have p: "prefix P (str_lower u @ P @ str_lower rest)"
    unfolding prefix_ci_def str_lower_append heading_lower P_def .
  show False
  proof (cases "28 \<le> length u")
    case True
    then have "prefix P (str_lower u)"
      using p lenP by (intro prefix_within [of P "str_lower u"]) (simp_all add: length_str_lower)
    then have "sublist P (str_lower u)" by (rule prefix_imp_sublist)
    moreover have "sublist (str_lower u) (str_lower pre)"
      unfolding str_lower_def using assms(2) by (intro sublist_map suffix_imp_sublist)
    ultimately have "sublist P (str_lower pre)"
      by (meson sublist_order.order.trans)
    with assms(1) show False by (simp add: str_contains_sublist P_def)
  next
    case False
    define k where "k = length u"
    have k: "1 \<le> k" "k < 28" using False assms(3) by (auto simp: k_def Suc_le_eq)
    have "drop (length (str_lower u)) P = take (length P - length (str_lower u)) P"
      using p False lenP by (intro overlap_border) (simp_all add: length_str_lower)
    then have "drop k P = take (28 - k) P"
      by (simp add: length_str_lower k_def lenP)
    moreover have "k \<in> set [1..<28]" using k by simp
    ultimately show False
      using heading_no_border unfolding list_all_iff P_def by blast
  qed
qed

lemma search_overall_skip:
  assumes "\<And>u. suffix u pre \<Longrightarrow> u \<noteq> [] \<Longrightarrow> \<not> prefix_ci ''Overall Lapse Severity Score'' (u @ rest)"
  shows "search_overall (pre @ rest) = search_overall rest"
  using assms
proof (induction pre)
  case Nil
  then show ?case by simp
next
  case (Cons c pre)
  have "\<not> prefix_ci ''Overall Lapse Severity Score'' ((c # pre) @ rest)"
    using Cons.prems [of "c # pre"] by simp
  moreover have "search_overall (pre @ rest) = search_overall rest"
    by (rule Cons.IH) (simp add: Cons.prems suffix_Cons)
  ultimately show ?case by simp
qed

lemma lazy_overall_score_skip:
  assumes "CHR 0x0A \<notin> set mid"
  shows "lazy_overall_score (mid @ rest) = lazy_overall_score rest"
  using assms by (induction mid) auto

lemma not_space_digit: "isdigit c \<Longrightarrow> \<not> isspace c"
  by (auto simp: isdigit_def isspace_def digits_def)

lemma match_digits_run:
  assumes "ds \<noteq> []" "list_all isdigit ds"
  shows "match_digits (ds @ ''**'' @ post) = Some (ds, ''**'' @ post)"
proof -
  have "\<not> isdigit (CHR ''*'')" by (simp add: isdigit_def digits_def)
  then have "takeWhile isdigit (ds @ ''**'' @ post) = ds"
            "dropWhile isdigit (ds @ ''**'' @ post) = ''**'' @ post"
    using assms(2) by (simp_all add: list_all_iff takeWhile_append2 dropWhile_append3)
  then show ?thesis using assms(1) by (simp add: match_digits_def)
qed

lemma overall_score_line_found:
  assumes "list_all isspace ws" "ds \<noteq> []" "list_all isdigit ds"
  shows "overall_score_line (ws @ ''**Score: '' @ ds @ ''**'' @ post) = Some ds"
proof -
  have 1: "dropWhile isspace (ws @ ''**Score: '' @ ds @ ''**'' @ post)
             = ''**Score: '' @ ds @ ''**'' @ post"
    using assms(1) by (simp add: list_all_iff dropWhile_append3 isspace_def)
  have 2: "prefix_ci ''**Score:'' (''**Score: '' @ ds @ ''**'' @ post)"
    by (simp add: prefix_ci_def str_lower_def)
  have "\<not> isspace (hd ds)" using assms(2,3) by (cases ds) (auto simp: not_space_digit)
  then have 3: "dropWhile isspace (drop 8 (''**Score: '' @ ds @ ''**'' @ post))
             = ds @ ''**'' @ post"
    using assms(2) by (cases ds) (auto simp: isspace_def)
  show ?thesis
    unfolding overall_score_line_def Let_def 1 using 2 3 match_digits_run [OF assms(2,3)]
    by simp
qed

lemma overall_after_department:
  assumes "\<not> str_contains ''overall lapse severity score'' (str_lower pre)"
      and "CHR 0x0A \<notin> set mid"
      and "list_all isspace ws" and "ds \<noteq> []" and "list_all isdigit ds"
  shows "search_overall (pre @ ''Overall Lapse Severity Score'' @ mid @ [CHR 0x0A] @ ws
                         @ ''**Score: '' @ ds @ ''**'' @ post) = Some ds"
proof -
  let ?tail = "ws @ ''**Score: '' @ ds @ ''**'' @ post"
  let ?rest = "mid @ [CHR 0x0A] @ ?tail"
  have "search_overall (pre @ ''Overall Lapse Severity Score'' @ ?rest)
          = search_overall (''Overall Lapse Severity Score'' @ ?rest)"
    by (rule search_overall_skip) (rule no_heading_in_prefix [OF assms(1)])
  also have "\<dots> = lazy_overall_score ?rest"
  proof -
    have "prefix_ci ''Overall Lapse Severity Score'' (''Overall Lapse Severity Score'' @ ?rest)"
      by (simp add: prefix_ci_def str_lower_def)
    moreover have "lazy_overall_score ?rest = Some ds"
      using lazy_overall_score_skip [OF assms(2), of "[CHR 0x0A] @ ?tail"]
            overall_score_line_found [OF assms(3-5), of post]
      by simp
    ultimately show ?thesis by simp
  qed
  also have "\<dots> = Some ds"
    using lazy_overall_score_skip [OF assms(2), of "[CHR 0x0A] @ ?tail"]
          overall_score_line_found [OF assms(3-5), of post]
    by simp
  finally show ?thesis by simp
qed













section \<open>Severity score extractor: priority of the patterns\<close>

lemma search_overall_nonempty: "search_overall c = Some g \<Longrightarrow> c \<noteq> []"
  by (cases c) simp_all

lemma search_lapse_nonempty: "search_lapse c = Some g \<Longrightarrow> c \<noteq> []"
  by (cases c) simp_all

lemma findall_scores_nonempty: "findall_scores at_start c \<noteq> [] \<Longrightarrow> c \<noteq> []"
  by (cases c) (simp_all add: findall_scores.simps)

lemma int_of_digits_7: "int_of_digits ''7'' = 7"
  by code_simp

text \<open>
  C2 (as amended). The extractor applies a fixed priority, first match wins: (1) the score
  following an \<open>Overall Lapse Severity Score\<close> heading; (2) any \<open>Lapse Severity Score: N\<close>;
  (3) when the section carries no score of its own (none in the list view, \<open>0\<close> in the
  detail view), the last match of the \<open>Score: N\<close> pattern; a score that the section
  carries is otherwise kept. In particular, for every audit content made of a first part
  without the heading (the department scores, such as \<open>Score: 4\<close>), the heading, the rest
  of its line, and a following line \<open>**Score: 7**\<close>, which blank lines and indentation may
  precede, the extractor returns 7 whatever score the section carries.
\<close>

theorem severity_priority:
  "(search_overall c = Some g \<longrightarrow>
      severity_from_audit severity c = Some (int_of_digits g)
      \<and> detail_severity_from_audit section_score c = int_of_digits g)
   \<and> (search_overall c = None \<and> search_lapse c = Some g \<longrightarrow>
      severity_from_audit severity c = Some (int_of_digits g)
      \<and> detail_severity_from_audit section_score c = int_of_digits g)
   \<and> (search_overall c = None \<and> search_lapse c = None \<and> findall_scores True c \<noteq> [] \<longrightarrow>
      severity_from_audit None c = Some (int_of_digits (last (findall_scores True c)))
      \<and> detail_severity_from_audit 0 c = int_of_digits (last (findall_scores True c)))
   \<and> (search_overall c = None \<and> search_lapse c = None \<longrightarrow>
      severity_from_audit (Some v) c = Some v
      \<and> (v \<noteq> 0 \<longrightarrow> detail_severity_from_audit v c = v))
   \<and> (\<not> str_contains ''overall lapse severity score'' (str_lower pre)
      \<and> CHR 0x0A \<notin> set mid \<and> list_all isspace ws \<longrightarrow>
      severity_from_audit severity
        (pre @ ''Overall Lapse Severity Score'' @ mid @ [CHR 0x0A] @ ws @ ''**Score: 7**'' @ post)
        = Some 7
      \<and> detail_severity_from_audit section_score
        (pre @ ''Overall Lapse Severity Score'' @ mid @ [CHR 0x0A] @ ws @ ''**Score: 7**'' @ post)
        = 7)"
proof -
  have p1: "severity_from_audit severity c = Some (int_of_digits g)
            \<and> detail_severity_from_audit section_score c = int_of_digits g"
    if "search_overall c = Some g"
    using that search_overall_nonempty [OF that]
    by (simp add: severity_from_audit_def detail_severity_from_audit_def)
  have p2: "severity_from_audit severity c = Some (int_of_digits g)
            \<and> detail_severity_from_audit section_score c = int_of_digits g"
    if "search_overall c = None" "search_lapse c = Some g"
    using that search_lapse_nonempty [OF that(2)]
    by (simp add: severity_from_audit_def detail_severity_from_audit_def)
  have p3: "severity_from_audit None c = Some (int_of_digits (last (findall_scores True c)))
            \<and> detail_severity_from_audit 0 c = int_of_digits (last (findall_scores True c))"
    if "search_overall c = None" "search_lapse c = None" "findall_scores True c \<noteq> []"
    using that findall_scores_nonempty [OF that(3)]
    by (cases "findall_scores True c")
       (simp_all add: severity_from_audit_def detail_severity_from_audit_def)
  have p4: "severity_from_audit (Some v) c = Some v
            \<and> (v \<noteq> 0 \<longrightarrow> detail_severity_from_audit v c = v)"
    if "search_overall c = None" "search_lapse c = None"
    using that by (simp add: severity_from_audit_def detail_severity_from_audit_def)
  have p5: "severity_from_audit severity
        (pre @ ''Overall Lapse Severity Score'' @ mid @ [CHR 0x0A] @ ws @ ''**Score: 7**'' @ post)
        = Some 7
      \<and> detail_severity_from_audit section_score
        (pre @ ''Overall Lapse Severity Score'' @ mid @ [CHR 0x0A] @ ws @ ''**Score: 7**'' @ post)
        = 7"
    if h: "\<not> str_contains ''overall lapse severity score'' (str_lower pre)"
          "CHR 0x0A \<notin> set mid" "list_all isspace ws"
  proof -
    define content where
      "content = pre @ ''Overall Lapse Severity Score'' @ mid @ [CHR 0x0A] @ ws
                   @ ''**Score: '' @ ''7'' @ ''**'' @ post"
    have "search_overall content = Some ''7''"
      unfolding content_def
      by (rule overall_after_department [OF h]) (simp_all add: isdigit_def digits_def)
    moreover have "content \<noteq> []" by (simp add: content_def)
    ultimately have "severity_from_audit severity content = Some 7
                     \<and> detail_severity_from_audit section_score content = 7"
      by (simp add: severity_from_audit_def detail_severity_from_audit_def int_of_digits_7)
    then show ?thesis by (simp add: content_def)
  qed
  show ?thesis using p1 p2 p3 p4 p5 by blast
qed

theorem severity_priority_witness:
  "\<not> str_contains ''overall lapse severity score''
       (str_lower ''### Police\<newline>**Score: 4**\<newline>\<newline>### '')
   \<and> severity_from_audit (Some 4)
        (''### Police\<newline>**Score: 4**\<newline>\<newline>### '' @ ''Overall Lapse Severity Score''
          @ '' (all departments)'' @ [CHR 0x0A] @ [CHR 0x0A]
          @ ''**Score: 7**'' @ ''\<newline>Justification: delay'') = Some 7"
proof -
  have h1: "\<not> str_contains ''overall lapse severity score''
              (str_lower ''### Police\<newline>**Score: 4**\<newline>\<newline>### '')"
    by code_simp
  have h2: "CHR 0x0A \<notin> set '' (all departments)''" by simp
  have h3: "list_all isspace [CHR 0x0A]" by (simp add: isspace_def)
  from severity_priority [where pre = "''### Police\<newline>**Score: 4**\<newline>\<newline>### ''"
      and mid = "'' (all departments)''" and ws = "[CHR 0x0A]"
      and post = "''\<newline>Justification: delay''" and severity = "Some 4"] h1 h2 h3
  show ?thesis by blast
qed

text \<open>
  C2 as stated fails on its third rule: the section carries the score 3, neither the
  heading nor \<open>Lapse Severity Score:\<close> occurs, the only \<open>Score: N\<close> line reads 5, and the
  extractor keeps 3.
\<close>

theorem severity_priority_counterexample:
  "search_overall ''Police Department Score: 5'' = None
   \<and> search_lapse ''Police Department Score: 5'' = None
   \<and> findall_scores True ''Police Department Score: 5'' = [''5'']
   \<and> severity_from_audit (Some 3) ''Police Department Score: 5'' = Some 3
   \<and> detail_severity_from_audit 3 ''Police Department Score: 5'' = 3"
  by code_simp


section \<open>Severity score extractor: the value\<close>




section \<open>Date normalizer: facts about the strategies\<close>

lemma make_date_valid: "make_date y m d = Some x \<Longrightarrow> valid_date x"
  by (auto simp: make_date_def split: if_splits)

lemma strptime_valid: "strptime s fmt = Some x \<Longrightarrow> valid_date x"
  by (auto simp: strptime_def split: list.splits if_splits prod.splits dest: make_date_valid)

lemma verbose_date_valid: "verbose_date s = Some x \<Longrightarrow> valid_date x"
  by (auto simp: verbose_date_def Let_def split: option.splits prod.splits
           dest: make_date_valid)

lemma in_set_map_filter:
  "x \<in> set xs \<Longrightarrow> f x = Some y \<Longrightarrow> y \<in> set (List.map_filter f xs)"
  by (force simp: List.map_filter_def)

lemma try_formats_none:
  "list_all (\<lambda>fmt. strptime s_clean fmt = None \<and> strptime s fmt = None) fmts
   \<Longrightarrow> try_formats now_year s_clean s (fmts @ later) = try_formats now_year s_clean s later"
  by (induction fmts) simp_all

text \<open>A date returned by the loop over the formats was read by one of the formats, and
  its year passed the test.\<close>

lemma try_formats_reading:
  "try_formats now_year s_clean s fmts = Some d \<Longrightarrow>
   year d \<le> now_year + 1
   \<and> (\<exists>fmt. fmt \<in> set fmts
          \<and> (case strptime s_clean fmt of Some x \<Rightarrow> Some x | None \<Rightarrow> strptime s fmt) = Some d)"
proof (induction fmts)
  case Nil
  then show ?case by simp
next
  case (Cons fmt fmts)
  show ?case
  proof (cases "try_formats now_year s_clean s fmts = Some d")
    case True
    from Cons.IH [OF this] show ?thesis by auto
  next
    case False
    with Cons.prems show ?thesis
      by (auto split: option.splits if_splits)
  qed
qed

lemma parse_date_reading:
  assumes "parse_date now_year date_str = Some d"
  shows "d \<in> set (readings date_str)" and "year d \<le> now_year + 1" and "valid_date d"
proof -
  let ?s = "str_strip date_str"
  let ?c = "clean_ordinals ?s"
  have ne: "date_str \<noteq> []" using assms by (auto simp: parse_date_def)
  consider (fmt) "try_formats now_year ?c ?s formats = Some d"
    | (verbose) "verbose_date ?s = Some d" "year d \<le> now_year + 1"
    using assms ne
    by (auto simp: parse_date_def Let_def split: option.splits if_splits)
  then have "d \<in> set (readings date_str) \<and> year d \<le> now_year + 1 \<and> valid_date d"
  proof cases
    case fmt
    from try_formats_reading [OF this] obtain f where
      f: "f \<in> set formats" "format_reading date_str f = Some d" "year d \<le> now_year + 1"
      by (auto simp: format_reading_def)
    have "valid_date d"
      using f(2) by (auto simp: format_reading_def split: option.splits dest: strptime_valid)
    moreover have "d \<in> set (List.map_filter (format_reading date_str) formats)"
      using f(1,2) by (rule in_set_map_filter)
    ultimately show ?thesis using f(3) by (simp add: readings_def)
  next
    case verbose
    then show ?thesis by (simp add: readings_def verbose_date_valid)
  qed
  then show "d \<in> set (readings date_str)" and "year d \<le> now_year + 1" and "valid_date d"
    by simp_all
qed


section \<open>Date normalizer: the three examples\<close>

lemma parse_date_numeric_example:
  assumes "2024 \<le> now_year"
  shows "parse_date now_year ''03-10-2025'' = Some \<lparr>year = 2025, month = 10, day = 3\<rparr>"
proof -
  have s: "str_strip ''03-10-2025'' = ''03-10-2025''"
          "clean_ordinals ''03-10-2025'' = ''03-10-2025''"
    by code_simp+
  have 1: "list_all (\<lambda>fmt. strptime ''03-10-2025'' fmt = None \<and> strptime ''03-10-2025'' fmt = None)
             (take 1 formats)"
    by code_simp
  have 2: "strptime ''03-10-2025'' ''%d-%m-%Y'' = Some \<lparr>year = 2025, month = 10, day = 3\<rparr>"
    by code_simp
  have f: "formats = take 1 formats @ ''%d-%m-%Y'' # drop 2 formats"
    by (simp add: formats_def)
  have "try_formats now_year ''03-10-2025'' ''03-10-2025'' formats
          = Some \<lparr>year = 2025, month = 10, day = 3\<rparr>"
    by (subst f, subst try_formats_none [OF 1]) (use assms 2 in simp)
  then show ?thesis by (simp add: parse_date_def s)
qed

lemma parse_date_ordinal_example:
  assumes "2024 \<le> now_year"
  shows "parse_date now_year ''30th December, 2025''
           = Some \<lparr>year = 2025, month = 12, day = 30\<rparr>"
proof -
  have s: "str_strip ''30th December, 2025'' = ''30th December, 2025''"
          "clean_ordinals ''30th December, 2025'' = ''30 December, 2025''"
    by code_simp+
  have 1: "list_all (\<lambda>fmt. strptime ''30 December, 2025'' fmt = None
                          \<and> strptime ''30th December, 2025'' fmt = None) (take 6 formats)"
    by code_simp
  have 2: "strptime ''30 December, 2025'' ''%d %B, %Y''
             = Some \<lparr>year = 2025, month = 12, day = 30\<rparr>"
    by code_simp
  have f: "formats = take 6 formats @ ''%d %B, %Y'' # drop 7 formats"
    by (simp add: formats_def)
  have "try_formats now_year ''30 December, 2025'' ''30th December, 2025'' formats
          = Some \<lparr>year = 2025, month = 12, day = 30\<rparr>"
    by (subst f, subst try_formats_none [OF 1]) (use assms 2 in simp)
  then show ?thesis by (simp add: parse_date_def s)
qed

text \<open>
  In the verbose example the day is written \<open>09\<close>. The day pattern
  \<open>\b([1-9]|[12]\d|3[01])\b\<close> admits no leading zero and finds no word boundary between
  \<open>0\<close> and \<open>9\<close>, so the extractor finds a year and a month and no day.
\<close>

lemma verbose_example_parts:
  "search_token [[''2'', ''0'', digits, digits]] False ''thursday this the 09 october 2025.''
     = Some ''2025''
   \<and> search_token [[nonzero_digits], [''12'', digits], [''3'', ''01'']] False
       ''thursday this the 09 october 2025.'' = None"
  by code_simp

text \<open>
  C1. The first two inputs are read as stated (the two lemmas above, for a clock in 2024
  or later). For the third input, \<open>Thursday, this the 09 day of October, 2025.\<close>,
  \<open>parse_date\<close> returns no date, whatever the current year.
\<close>

theorem parse_date_verbose_example:
  "parse_date now_year ''Thursday, this the 09 day of October, 2025.'' = None"
proof -
  let ?s = "''Thursday, this the 09 day of October, 2025.''"
  have s: "str_strip ?s = ?s" "clean_ordinals ?s = ?s"
    by code_simp+
  have 1: "list_all (\<lambda>fmt. strptime ?s fmt = None \<and> strptime ?s fmt = None) formats"
    by code_simp
  have 2: "verbose_date ?s = None"
    by code_simp
  have "try_formats now_year ?s ?s formats = None"
    using try_formats_none [OF 1, of now_year "[]"] by simp
  then show ?thesis by (simp add: parse_date_def s 2)
qed

theorem parse_date_verbose_example_witness:
  "parse_date 2026 ''Thursday, this the 09 day of October, 2025.'' = None"
  by (rule parse_date_verbose_example)

text \<open>Without the leading zero the same sentence is read.\<close>

lemma parse_date_verbose_without_zero:
  "parse_date 2026 ''Thursday, this the 9 day of October, 2025.''
     = Some \<lparr>year = 2025, month = 10, day = 9\<rparr>"
  by code_simp


section \<open>Date normalizer: valid dates, no far future\<close>

text \<open>
  C3. For every input string, a date returned by \<open>parse_date\<close> is a valid calendar date
  whose year is at most the current year plus one. For every string that can be read as
  a date and is read, by every format and by the verbose extractor, only as dates whose
  year lies beyond the current year plus one, \<open>parse_date\<close> returns no result.
\<close>

theorem parse_date_sound:
  "(parse_date now_year date_str = Some d \<longrightarrow> valid_date d \<and> year d \<le> now_year + 1)
   \<and> (readings date_str \<noteq> [] \<and> list_all (\<lambda>r. now_year + 1 < year r) (readings date_str)
        \<longrightarrow> parse_date now_year date_str = None)"
proof -
  have a: "valid_date d \<and> year d \<le> now_year + 1" if "parse_date now_year date_str = Some d"
    using parse_date_reading [OF that] by simp
  have b: "parse_date now_year date_str = None"
    if far: "list_all (\<lambda>r. now_year + 1 < year r) (readings date_str)"
  proof (cases "parse_date now_year date_str")
    case None
    then show ?thesis .
  next
    case (Some x)
    from parse_date_reading(1,2) [OF Some] far have False
      by (auto simp: list_all_iff)
    then show ?thesis ..
  qed
  show ?thesis using a b by blast
qed

theorem parse_date_sound_witness:
  "parse_date 2026 ''30th December, 2025'' = Some \<lparr>year = 2025, month = 12, day = 30\<rparr>
   \<and> valid_date \<lparr>year = 2025, month = 12, day = 30\<rparr>
   \<and> readings ''5 December, 2095''
       = [\<lparr>year = 2095, month = 12, day = 5\<rparr>, \<lparr>year = 2095, month = 12, day = 5\<rparr>]
   \<and> parse_date 2026 ''5 December, 2095'' = None"
proof -
  have h1: "parse_date 2026 ''30th December, 2025''
              = Some \<lparr>year = 2025, month = 12, day = 30\<rparr>"
    by code_simp
  have r: "readings ''5 December, 2095''
             = [\<lparr>year = 2095, month = 12, day = 5\<rparr>, \<lparr>year = 2095, month = 12, day = 5\<rparr>]"
    by code_simp
  have h2: "readings ''5 December, 2095'' \<noteq> []" by (simp add: r)
  have h3: "list_all (\<lambda>r. 2026 + 1 < year r) (readings ''5 December, 2095'')"
    by (simp add: r)
  from parse_date_sound [of 2026 "''30th December, 2025''"
         "\<lparr>year = 2025, month = 12, day = 30\<rparr>"] h1
  have v: "valid_date \<lparr>year = 2025, month = 12, day = 30\<rparr>" by blast
  from parse_date_sound [of 2026 "''5 December, 2095''"] h2 h3
  have n: "parse_date 2026 ''5 December, 2095'' = None" by blast
  from h1 v r n show ?thesis by blast
qed

text \<open>
  The year 2095 in the other shapes: a format reads the date, the test of the year passes
  it over, and neither a later format nor the verbose extractor returns a date.
\<close>

lemma parse_date_2095_examples:
  "parse_date 2026 ''03-10-2095'' = None
   \<and> parse_date 2026 ''2095-10-03'' = None
   \<and> parse_date 2026 ''December 5th, 2095'' = None
   \<and> parse_date 2026 ''on this 5th day of December, 2095'' = None"
  by code_simp

section \<open>Markdown table parser: rows and the vertical mapping\<close>



















text \<open>With the same header name twice the parser returns nothing at all.\<close>

lemma vertical_table_duplicate_headers:
  "parse_markdown_table ''| Field | Field |\<newline>|---|---|\<newline>| Court | High Court |'' = []"
  by code_simp

section \<open>Batch load: unreadable files\<close>









text \<open>A file that is read and on which the loop body raises ends the batch.\<close>

lemma batch_body_raises:
  "load_analysis_list [] [Gives example_summary, Body_raises] [] = Inl Uncaught_exception"
  by code_simp

end
